theory Spec2Isabelle
  imports Main "HOL-Library.Word"
begin

unbundle bit_operations_syntax

section \<open>Octets, addresses and the Ethernet controller\<close>

type_synonym u8 = "8 word"
type_synonym u16 = "16 word"

text \<open>
  \<open>Eui48\<close> is the six-octet address structure whose \<open>value\<close> array the source hands to
  \<open>W5100.setMACAddress\<close>; \<open>Eui64\<close> is the eight-octet entity identifier.
\<close>

datatype Eui48 = Eui48 u8 u8 u8 u8 u8 u8

datatype Eui64 = Eui64 u8 u8 u8 u8 u8 u8 u8 u8

fun octets48 :: "Eui48 \<Rightarrow> u8 list" where
  "octets48 (Eui48 a b c d e f) = [a, b, c, d, e, f]"

fun octets64 :: "Eui64 \<Rightarrow> u8 list" where
  "octets64 (Eui64 a b c d e f g h) = [a, b, c, d, e, f, g, h]"

text \<open>
  The bit masks \<open>SnIR::RECV\<close>, \<open>SnIR::SEND_OK\<close>, \<open>SnIR::TIMEOUT\<close> and the mode
  \<open>SnMR::MACRAW\<close> come from the controller library's header \<open>utility/w5100.h\<close>, which
  is not part of the sources. They are parameters of every operation that uses them.
\<close>

record W5100_consts =
  SnIR_SEND_OK :: u8
  SnIR_TIMEOUT :: u8
  SnIR_RECV :: u8
  SnMR_MACRAW :: u8

datatype sock_cmd = Sock_OPEN | Sock_CLOSE | Sock_SEND_MAC | Sock_RECV

text \<open>
  Every call of the source into the controller library that changes the controller is
  recorded, in order, with its arguments. The socket argument is \<open>0\<close> at every call of the
  source and is left out.
\<close>

datatype w5100_op =
    Init
  | SetMACAddress "u8 list"
  | Socket u8 u16 u8
  | Close
  | WriteSnRX_RD u16
  | WriteSnDHAR "u8 list"
  | Send_data_processing "u8 list"
  | WriteSnIR u8
  | ExecCmdSn sock_cmd

text \<open>
  The controller as the source sees it through the library: \<open>ops\<close> is the history of
  changing calls (oldest first), \<open>Sn_RX_RD\<close> the RX read pointer register of socket 0,
  \<open>rx_at p\<close> the octet the controller delivers for the RX pointer value \<open>p\<close>, and
  \<open>ir_at n\<close> the value that the \<open>n\<close>-th read of the socket interrupt register returns
  (the register is set by the hardware, so its successive values are an input);
  \<open>ir_reads\<close> counts the reads made so far.
\<close>

record W5100 =
  ops :: "w5100_op list"
  Sn_RX_RD :: u16
  rx_at :: "u16 \<Rightarrow> u8"
  ir_at :: "nat \<Rightarrow> u8"
  ir_reads :: nat

definition issue :: "w5100_op \<Rightarrow> W5100 \<Rightarrow> W5100" where
  "issue c dev = dev\<lparr>ops := ops dev @ [c]\<rparr>"

definition readSnIR :: "W5100 \<Rightarrow> u8 \<times> W5100" where
  "readSnIR dev = (ir_at dev (ir_reads dev), dev\<lparr>ir_reads := Suc (ir_reads dev)\<rparr>)"

definition readSnRX_RD :: "W5100 \<Rightarrow> u16" where
  "readSnRX_RD dev = Sn_RX_RD dev"

definition writeSnRX_RD :: "u16 \<Rightarrow> W5100 \<Rightarrow> W5100" where
  "writeSnRX_RD p dev = issue (WriteSnRX_RD p) (dev\<lparr>Sn_RX_RD := p\<rparr>)"

definition execCmdSn :: "sock_cmd \<Rightarrow> W5100 \<Rightarrow> W5100" where
  "execCmdSn c dev = issue (ExecCmdSn c) dev"

definition writeSnIR :: "u8 \<Rightarrow> W5100 \<Rightarrow> W5100" where
  "writeSnIR v dev = issue (WriteSnIR v) dev"

text \<open>
  Memory reached through a raw pointer of the caller is a function from the offset behind
  the pointer to the octet stored there. \<open>read_data dev src dst len\<close> is the memory at
  \<open>dst\<close> after the library copied \<open>len\<close> octets from the RX pointer value \<open>src\<close> on.
\<close>

type_synonym mem = "nat \<Rightarrow> u8"

definition read_data :: "W5100 \<Rightarrow> u16 \<Rightarrow> mem \<Rightarrow> nat \<Rightarrow> mem" where
  "read_data dev src dst len = (\<lambda>i. if i < len then rx_at dev (src + of_nat i) else dst i)"

definition octets_at :: "mem \<Rightarrow> nat \<Rightarrow> u8 list" where
  "octets_at m n = map m [0..<n]"

definition writeSnDHAR :: "mem \<Rightarrow> W5100 \<Rightarrow> W5100" where
  "writeSnDHAR addr dev = issue (WriteSnDHAR (octets_at addr 6)) dev"

definition send_data_processing :: "mem \<Rightarrow> u16 \<Rightarrow> W5100 \<Rightarrow> W5100" where
  "send_data_processing data len dev = issue (Send_data_processing (octets_at data (unat len))) dev"

section \<open>WizNetIO: the raw Ethernet path\<close>

text \<open>
  \<open>WizNetIO::ReceiveRawNet\<close>. The result is the returned length, the caller's memory at
  \<open>data\<close> and the controller afterwards. \<open>head\<close> is a local array of two octets; both are
  written by the first \<open>read_data\<close> before they are read. All arithmetic is on
  \<open>uint16_t\<close> and wraps.
\<close>

definition ReceiveRawNet :: "W5100_consts \<Rightarrow> W5100 \<Rightarrow> mem \<Rightarrow> u16 \<Rightarrow> u16 \<times> mem \<times> W5100" where
  "ReceiveRawNet k dev0 data max_len =
    (case readSnIR dev0 of (ir, dev) \<Rightarrow>
      (case
        (if ir AND SnIR_RECV k \<noteq> 0 then
           let ptr0 = readSnRX_RD dev;
               head = read_data dev ptr0 (\<lambda>_. 0) 2;
               ptr1 = ptr0 + 2;
               data_len0 = (ucast (head 0) :: u16);
               data_len = push_bit 8 data_len0 + ucast (head 1) - 2;
               data' = (if data_len \<le> max_len
                        then read_data dev ptr1 data (unat data_len) else data);
               ptr2 = ptr1 + data_len
           in (data_len, data', execCmdSn Sock_RECV (writeSnRX_RD ptr2 dev))
         else (0, data, dev))
       of (data_len, data', dev') \<Rightarrow>
         (if data_len \<le> max_len then data_len else 0, data', dev')))"

text \<open>The 16-bit length prefix the controller holds at its RX read pointer, big-endian.\<close>

definition rx_prefix :: "W5100 \<Rightarrow> u16" where
  "rx_prefix dev = push_bit 8 (ucast (rx_at dev (Sn_RX_RD dev))) + ucast (rx_at dev (Sn_RX_RD dev + 1))"

text \<open>The value the next read of the socket interrupt register returns.\<close>

definition pending_ir :: "W5100 \<Rightarrow> u8" where
  "pending_ir dev = ir_at dev (ir_reads dev)"

text \<open>
  \<open>WizNetIO::SendRawNet\<close>. The wait loop reads the interrupt register once in its
  condition and once more in its body, and runs until the hardware shows SEND_OK or TIMEOUT:
  it need not end, so the result is \<open>None\<close> when it never does. A finished call gives the
  returned value and the controller. The function is declared \<open>bool\<close>; the TIMEOUT branch
  executes \<open>return 0\<close> (\<open>Some False\<close>), and after the loop control reaches the closing
  brace of the function with no \<open>return\<close> statement, so no value is returned (\<open>None\<close>
  in the first component).
\<close>

partial_function (option) SendRawNet_wait :: "W5100_consts \<Rightarrow> W5100 \<Rightarrow> (bool option \<times> W5100) option" where
  "SendRawNet_wait k dev0 =
    (case readSnIR dev0 of (ir1, dev1) \<Rightarrow>
      if ir1 AND SnIR_SEND_OK k \<noteq> SnIR_SEND_OK k then
        (case readSnIR dev1 of (ir2, dev2) \<Rightarrow>
          if ir2 AND SnIR_TIMEOUT k \<noteq> 0
          then Some (Some False, writeSnIR (SnIR_SEND_OK k OR SnIR_TIMEOUT k) dev2)
          else SendRawNet_wait k dev2)
      else Some (None, writeSnIR (SnIR_SEND_OK k) dev1))"

definition SendRawNet :: "W5100_consts \<Rightarrow> W5100 \<Rightarrow> mem \<Rightarrow> u16 \<Rightarrow> (bool option \<times> W5100) option" where
  "SendRawNet k dev data len =
    SendRawNet_wait k
      (execCmdSn Sock_SEND_MAC (send_data_processing data len (writeSnDHAR data dev)))"

text \<open>
  \<open>WizNetIO::Initialize\<close> and the destructor. \<open>W5100.init\<close>, \<open>W5100.setMACAddress\<close>,
  \<open>socket\<close> and \<open>close\<close> belong to the controller library; each is recorded as one call.
  \<open>Initialize\<close> reads the member \<open>m_mac_address\<close> and takes no other input.
\<close>

definition W5100_init :: "W5100 \<Rightarrow> W5100" where
  "W5100_init dev = issue Init dev"

definition setMACAddress :: "u8 list \<Rightarrow> W5100 \<Rightarrow> W5100" where
  "setMACAddress addr dev = issue (SetMACAddress addr) dev"

definition socket :: "u8 \<Rightarrow> u16 \<Rightarrow> u8 \<Rightarrow> W5100 \<Rightarrow> W5100" where
  "socket protocol port flag dev = issue (Socket protocol port flag) dev"

definition close :: "W5100 \<Rightarrow> W5100" where
  "close dev = issue Close dev"

definition WizNetIO_Initialize :: "W5100_consts \<Rightarrow> Eui48 \<Rightarrow> W5100 \<Rightarrow> W5100" where
  "WizNetIO_Initialize k m_mac dev =
    socket (SnMR_MACRAW k) 0x22f0 0 (setMACAddress (octets48 m_mac) (W5100_init dev))"

definition WizNetIO_destroy :: "W5100 \<Rightarrow> W5100" where
  "WizNetIO_destroy dev = close dev"

section \<open>RawSocketWizNet\<close>

record RawSocketWizNet =
  m_mac_address :: Eui48
  m_ethertype :: u16
  m_multicast :: Eui48

text \<open>
  Modelled from the spec: the body of the static member \<open>RawSocketWizNet::initialize\<close> is
  not part of the sources (the header only declares it, with the default argument
  \<open>etherType = 0x22f0\<close>). The spec: it resets the controller, programs the source MAC and
  opens socket 0 in MAC-RAW mode with the given Ethertype. The declared return type is
  \<open>void\<close>, so there is no error value.
\<close>

definition initialize :: "W5100_consts \<Rightarrow> Eui48 \<Rightarrow> u16 \<Rightarrow> W5100 \<Rightarrow> W5100" where
  "initialize k mac_address etherType dev =
    socket (SnMR_MACRAW k) etherType 0 (setMACAddress (octets48 mac_address) (W5100_init dev))"

text \<open>The call \<open>initialize(mac_address)\<close>, which takes the declared default argument.\<close>

definition initialize_default :: "W5100_consts \<Rightarrow> Eui48 \<Rightarrow> W5100 \<Rightarrow> W5100" where
  "initialize_default k mac_address dev = initialize k mac_address 0x22f0 dev"

text \<open>
  The constructor. \<open>m_multicast\<close> is default-constructed unless a multicast address is
  given; the structure \<open>Eui48\<close> is declared outside the sources, so its default value
  \<open>dflt\<close> is a parameter. \<open>multicast_to_join\<close> is a pointer that may be null.
\<close>

definition RawSocketWizNet_new ::
  "W5100_consts \<Rightarrow> Eui48 \<Rightarrow> Eui48 \<Rightarrow> u16 \<Rightarrow> Eui48 option \<Rightarrow> W5100 \<Rightarrow> RawSocketWizNet \<times> W5100" where
  "RawSocketWizNet_new k dflt mac_address ethertype multicast_to_join dev =
    (let this = \<lparr>m_mac_address = mac_address, m_ethertype = ethertype, m_multicast = dflt\<rparr>;
         dev' = initialize k mac_address ethertype dev
     in (case multicast_to_join of
           Some m \<Rightarrow> (this\<lparr>m_multicast := m\<rparr>, dev')
         | None \<Rightarrow> (this, dev')))"

text \<open>
  \<open>joinMulticast\<close> is declared \<open>bool\<close> and its body is the single assignment: control
  reaches the end of the body with no \<open>return\<close> statement, so no value is returned
  (\<open>None\<close>).
\<close>

definition joinMulticast :: "RawSocketWizNet \<Rightarrow> Eui48 \<Rightarrow> bool option \<times> RawSocketWizNet" where
  "joinMulticast this multicast_mac = (None, this\<lparr>m_multicast := multicast_mac\<rparr>)"

definition getMACAddress :: "RawSocketWizNet \<Rightarrow> Eui48" where
  "getMACAddress this = m_mac_address this"

section \<open>AppMessage\<close>

text \<open>
  Modelled from the spec: \<open>AppMessage\<close> has the single member \<open>m_appdu\<close>, whose
  structure \<open>jdksavdecc_fullappdu\<close> is declared outside the sources. The record lists
  its fields as the data model of the spec gives them: the header fields of the APPDU
  (version, message type, payload length, address, reserved) and the payload octets.
\<close>

record AppMessage =
  version :: u8
  message_type :: u8
  payload_length :: u16
  address :: Eui48
  reserved :: u16
  payload :: "u8 list"

text \<open>
  Modelled from the spec: the codes of the message types and the length of the header.
  The macros that name them are declared outside the sources; the values are those of
  the data model and of the wire format of the spec.
\<close>

definition NOP :: u8 where "NOP = 0"
definition ENTITY_ID_REQUEST :: u8 where "ENTITY_ID_REQUEST = 1"
definition ENTITY_ID_RESPONSE :: u8 where "ENTITY_ID_RESPONSE = 2"
definition LINK_UP :: u8 where "LINK_UP = 3"
definition LINK_DOWN :: u8 where "LINK_DOWN = 4"
definition AVDECC_FROM_APS :: u8 where "AVDECC_FROM_APS = 5"
definition AVDECC_FROM_APC :: u8 where "AVDECC_FROM_APC = 6"
definition VENDOR :: u8 where "VENDOR = 0xFF"
definition HEADER_LEN :: nat where "HEADER_LEN = 12"

text \<open>
  The bodies of the setters of \<open>AppMessage\<close> are not part of the sources: the header
  only declares them. The spec has each of them set version 0, its message type, the
  address field and the payload, with zero reserved octets and the payload length field
  equal to the length of the payload.
\<close>

text \<open>
  Modelled from the spec: what the setters have in common, a message of type \<open>t\<close> with
  address \<open>a\<close> and payload \<open>pl\<close>; version and reserved octets are 0 and the payload
  length field is the length of the payload, on 16 bits.
\<close>

definition mk_AppMessage :: "u8 \<Rightarrow> Eui48 \<Rightarrow> u8 list \<Rightarrow> AppMessage" where
  "mk_AppMessage t a pl =
    \<lparr>version = 0, message_type = t, payload_length = of_nat (length pl),
     address = a, reserved = 0, payload = pl\<rparr>"

text \<open>
  Modelled from the spec: \<open>setNOP\<close>, body not in the sources. A NOP has no payload and
  serializes to twelve zero octets, so its address is the all-zero address.
\<close>

definition setNOP :: AppMessage where
  "setNOP = mk_AppMessage NOP (Eui48 0 0 0 0 0 0) []"

text \<open>
  Modelled from the spec: \<open>setEntityIdRequest\<close>, body not in the sources. The address
  is the primary MAC address of the APC, the payload the eight octets of the entity id.
\<close>

definition setEntityIdRequest :: "Eui48 \<Rightarrow> Eui64 \<Rightarrow> AppMessage" where
  "setEntityIdRequest apc_primary_mac requested_entity_id =
    mk_AppMessage ENTITY_ID_REQUEST apc_primary_mac (octets64 requested_entity_id)"

text \<open>
  Modelled from the spec: \<open>setEntityIdResponse\<close>, body not in the sources. As the
  request, with the type of the response.
\<close>

definition setEntityIdResponse :: "Eui48 \<Rightarrow> Eui64 \<Rightarrow> AppMessage" where
  "setEntityIdResponse apc_primary_mac requested_entity_id =
    mk_AppMessage ENTITY_ID_RESPONSE apc_primary_mac (octets64 requested_entity_id)"

text \<open>
  Modelled from the spec: \<open>setLinkUp\<close>, body not in the sources. The address is the
  MAC address of the network port; there is no payload.
\<close>

definition setLinkUp :: "Eui48 \<Rightarrow> AppMessage" where
  "setLinkUp network_port_mac = mk_AppMessage LINK_UP network_port_mac []"

text \<open>
  Modelled from the spec: \<open>setLinkDown\<close>, body not in the sources. The address is the
  MAC address of the network port; there is no payload.
\<close>

definition setLinkDown :: "Eui48 \<Rightarrow> AppMessage" where
  "setLinkDown network_port_mac = mk_AppMessage LINK_DOWN network_port_mac []"

text \<open>
  Modelled from the spec: \<open>setAvdeccFromAps\<close>, body not in the sources, and neither is
  the class \<open>Frame\<close> of its argument. The payload is the encapsulated PDU of the frame.
  Which octets of the frame are the address and which the PDU is left to Annex C by the
  spec: both extractions, \<open>adr\<close> and \<open>pdu\<close>, are parameters, and a frame is a value of
  any type \<open>'f\<close>.
\<close>

definition setAvdeccFromAps :: "('f \<Rightarrow> Eui48) \<Rightarrow> ('f \<Rightarrow> u8 list) \<Rightarrow> 'f \<Rightarrow> AppMessage" where
  "setAvdeccFromAps adr pdu frame = mk_AppMessage AVDECC_FROM_APS (adr frame) (pdu frame)"

text \<open>
  Modelled from the spec: \<open>setAvdeccFromApc\<close>, body not in the sources. As
  \<open>setAvdeccFromAps\<close>, with the type of a message from the APC.
\<close>

definition setAvdeccFromApc :: "('f \<Rightarrow> Eui48) \<Rightarrow> ('f \<Rightarrow> u8 list) \<Rightarrow> 'f \<Rightarrow> AppMessage" where
  "setAvdeccFromApc adr pdu frame = mk_AppMessage AVDECC_FROM_APC (adr frame) (pdu frame)"

text \<open>
  Modelled from the spec: \<open>setVendor\<close>, body not in the sources, and neither is the
  class \<open>FixedBuffer\<close> of its payload argument, taken as the list of its octets. The
  address is the code of the vendor message type, the payload the given octets.
\<close>

definition setVendor :: "Eui48 \<Rightarrow> u8 list \<Rightarrow> AppMessage" where
  "setVendor vendor_message_type pl = mk_AppMessage VENDOR vendor_message_type pl"

text \<open>
  Modelled from the spec: the two octets of a 16-bit field in big-endian order, high
  octet first, as the wire format has the payload length.
\<close>

definition hi8 :: "u16 \<Rightarrow> u8" where
  "hi8 w = ucast (drop_bit 8 w)"

definition lo8 :: "u16 \<Rightarrow> u8" where
  "lo8 w = ucast w"

text \<open>Modelled from the spec: the 16-bit field read back from its two octets.\<close>

definition be16 :: "u8 \<Rightarrow> u8 \<Rightarrow> u16" where
  "be16 h l = push_bit 8 (ucast h) OR ucast l"

text \<open>
  Modelled from the spec: the twelve octets of the header in the wire format of the
  spec: version, message type, payload length, address, reserved.
\<close>

definition serialize_header :: "AppMessage \<Rightarrow> u8 list" where
  "serialize_header m =
    [version m, message_type m, hi8 (payload_length m), lo8 (payload_length m)]
    @ octets48 (address m) @ [hi8 (reserved m), lo8 (reserved m)]"

text \<open>
  Modelled from the spec: the serializer, which is not part of the sources. It writes
  the header followed by the payload.
\<close>

definition serialize :: "AppMessage \<Rightarrow> u8 list" where
  "serialize m = serialize_header m @ payload m"

section \<open>AppMessageParser\<close>

text \<open>
  The members of \<open>AppMessageParser\<close>. The counters are \<open>size_t\<close>, whose width depends on
  the platform: \<open>m_error_count\<close> is a word of any width \<open>'s\<close> (the record leaves the
  type of the counter open, the operations fix it to \<open>'s word\<close>), so that counting
  wraps as it does in the source. \<open>m_octets_left_in_payload\<close> never exceeds a 16-bit payload
  length, which every \<open>size_t\<close> holds, and is a natural number. \<open>m_header_buffer\<close> is
  the fixed buffer of \<open>HEADER_LEN\<close> octets; the list holds the octets below its current
  length.
\<close>

record 'size_t AppMessageParser =
  m_octets_left_in_payload :: nat
  m_error_count :: 'size_t
  m_header_buffer :: "u8 list"
  m_current_message :: AppMessage

text \<open>\<open>clear\<close> and \<open>getErrorCount\<close>, as the header defines them.\<close>

definition clear :: "('s::len word) AppMessageParser \<Rightarrow> 's word AppMessageParser" where
  "clear p = p\<lparr>m_header_buffer := [], m_error_count := 0, m_octets_left_in_payload := 0\<rparr>"

definition getErrorCount :: "'s word AppMessageParser \<Rightarrow> 's word" where
  "getErrorCount p = m_error_count p"

text \<open>
  The bodies of \<open>parse\<close>, \<open>parseHeader\<close>, \<open>validateHeader\<close> and \<open>parsePayload\<close>
  are not part of the sources: the header only declares them. Neither is the constant for
  the maximum payload length; it is the parameter \<open>MAX_PAYLOAD\<close> of the parser. The
  parser has no phase member: it is in the payload phase while
  \<open>m_octets_left_in_payload\<close> is not 0, and in the header phase otherwise.
\<close>

text \<open>Modelled from the spec: the message types that the validation recognizes.\<close>

definition recognized :: "u8 \<Rightarrow> bool" where
  "recognized t \<longleftrightarrow> t \<in> {NOP, ENTITY_ID_REQUEST, ENTITY_ID_RESPONSE, LINK_UP, LINK_DOWN,
     AVDECC_FROM_APS, AVDECC_FROM_APC, VENDOR}"

text \<open>
  Modelled from the spec: the three checks that reject the twelve octets \<open>hb\<close> of a
  header: the version is not 0, the message type is not recognized, or the payload length
  is above \<open>MAX_PAYLOAD\<close>.
\<close>

definition header_rejected :: "u16 \<Rightarrow> u8 list \<Rightarrow> bool" where
  "header_rejected MAX_PAYLOAD hb \<longleftrightarrow>
     hb ! 0 \<noteq> 0 \<or> \<not> recognized (hb ! 1) \<or> MAX_PAYLOAD < be16 (hb ! 2) (hb ! 3)"

text \<open>
  Modelled from the spec: the message that the twelve octets \<open>hb\<close> of a header start,
  by the offsets of the wire format, with no payload octet yet.
\<close>

definition header_message :: "u8 list \<Rightarrow> AppMessage" where
  "header_message hb =
    \<lparr>version = hb ! 0, message_type = hb ! 1, payload_length = be16 (hb ! 2) (hb ! 3),
     address = Eui48 (hb ! 4) (hb ! 5) (hb ! 6) (hb ! 7) (hb ! 8) (hb ! 9),
     reserved = be16 (hb ! 10) (hb ! 11), payload = []\<rparr>"

text \<open>
  Modelled from the spec: \<open>validateHeader\<close>, body not in the sources. A rejected header
  counts an error, drops the first octet of the header buffer (the rest moves left) and
  leaves the parser in the header phase. Nonzero reserved octets are accepted and counted
  as an error. A header with payload length 0 completes the message and empties the
  header buffer; any other starts the payload phase with that many octets left. It is
  only reached from \<open>parseHeader\<close>, with exactly \<open>HEADER_LEN\<close> octets in the header
  buffer.
\<close>

definition validateHeader :: "u16 \<Rightarrow> ('s::len word) AppMessageParser \<Rightarrow> AppMessage option \<times> 's word AppMessageParser" where
  "validateHeader MAX_PAYLOAD p =
    (let hb = m_header_buffer p in
     if header_rejected MAX_PAYLOAD hb then
       (None, p\<lparr>m_error_count := m_error_count p + 1, m_header_buffer := tl hb\<rparr>)
     else
       let msg = header_message hb;
           p1 = (if reserved msg \<noteq> 0 then p\<lparr>m_error_count := m_error_count p + 1\<rparr> else p);
           p2 = p1\<lparr>m_header_buffer := [], m_current_message := msg\<rparr>
       in if payload_length msg = 0 then (Some msg, p2)
          else (None, p2\<lparr>m_octets_left_in_payload := unat (payload_length msg)\<rparr>))"

text \<open>
  Modelled from the spec: \<open>parseHeader\<close>, body not in the sources. The octet is
  appended to the header buffer; when \<open>HEADER_LEN\<close> octets are collected the header is
  validated.
\<close>

definition parseHeader :: "u16 \<Rightarrow> ('s::len word) AppMessageParser \<Rightarrow> u8 \<Rightarrow> AppMessage option \<times> 's word AppMessageParser" where
  "parseHeader MAX_PAYLOAD p octet =
    (let p1 = p\<lparr>m_header_buffer := m_header_buffer p @ [octet]\<rparr> in
     if length (m_header_buffer p1) = HEADER_LEN then validateHeader MAX_PAYLOAD p1
     else (None, p1))"

text \<open>
  Modelled from the spec: \<open>parsePayload\<close>, body not in the sources. The octet is
  appended to the payload of the message in progress; when no octet is left the message
  is complete and the parser is back in the header phase.
\<close>

definition parsePayload :: "'s word AppMessageParser \<Rightarrow> u8 \<Rightarrow> AppMessage option \<times> 's word AppMessageParser" where
  "parsePayload p octet =
    (let msg = (m_current_message p)\<lparr>payload := payload (m_current_message p) @ [octet]\<rparr>;
         left = m_octets_left_in_payload p - 1;
         p1 = p\<lparr>m_current_message := msg, m_octets_left_in_payload := left\<rparr>
     in if left = 0 then (Some msg, p1) else (None, p1))"

text \<open>
  Modelled from the spec: \<open>parse\<close>, body not in the sources. It consumes one octet, in
  the phase the parser is in, and returns the message that the octet completes, if any.
\<close>

definition parse :: "u16 \<Rightarrow> ('s::len word) AppMessageParser \<Rightarrow> u8 \<Rightarrow> AppMessage option \<times> 's word AppMessageParser" where
  "parse MAX_PAYLOAD p octet =
    (if m_octets_left_in_payload p = 0 then parseHeader MAX_PAYLOAD p octet
     else parsePayload p octet)"

text \<open>
  Feeding a stream to \<open>parse\<close> octet by octet: the messages completed, in order, and
  the parser after the last octet.
\<close>

fun parse_octets :: "u16 \<Rightarrow> ('s::len word) AppMessageParser \<Rightarrow> u8 list \<Rightarrow> AppMessage list \<times> 's word AppMessageParser" where
  "parse_octets MAX_PAYLOAD p [] = ([], p)"
| "parse_octets MAX_PAYLOAD p (octet # rest) =
    (case parse MAX_PAYLOAD p octet of (r, p1) \<Rightarrow>
      (case parse_octets MAX_PAYLOAD p1 rest of (ms, p2) \<Rightarrow>
        ((case r of None \<Rightarrow> [] | Some m \<Rightarrow> [m]) @ ms, p2)))"

section \<open>Derived notions and example inputs\<close>

text \<open>
  The controller after \<open>ReceiveRawNet\<close> released a frame: the RX read pointer was
  written with its old value plus the length prefix, the RECV command was executed after
  that write, and the interrupt register was read once.
\<close>

definition rx_released :: "W5100 \<Rightarrow> W5100" where
  "rx_released dev =
    dev\<lparr>ops := ops dev @ [WriteSnRX_RD (Sn_RX_RD dev + rx_prefix dev), ExecCmdSn Sock_RECV],
        Sn_RX_RD := Sn_RX_RD dev + rx_prefix dev,
        ir_reads := Suc (ir_reads dev)\<rparr>"

text \<open>
  Example inputs: the flag and mode values of the W5100 data sheet, and a controller
  whose RX memory starts with the octets \<open>ring\<close>, whose read pointer is 0 and whose
  interrupt register always reads \<open>ir\<close>.
\<close>

definition k0 :: W5100_consts where
  "k0 = \<lparr>SnIR_SEND_OK = 0x10, SnIR_TIMEOUT = 0x08, SnIR_RECV = 0x04, SnMR_MACRAW = 0x04\<rparr>"

definition dev_ex :: "u8 list \<Rightarrow> u8 \<Rightarrow> W5100" where
  "dev_ex ring ir =
    \<lparr>ops = [], Sn_RX_RD = 0,
     rx_at = (\<lambda>p. if unat p < length ring then ring ! unat p else 0),
     ir_at = (\<lambda>_. ir), ir_reads = 0\<rparr>"

text \<open>
  The controller after \<open>SendRawNet\<close> handed a frame over: destination address
  register written from the first six octets at \<open>data\<close>, \<open>len\<close> octets passed to the
  transmit buffer, SEND_MAC executed.
\<close>

definition sent :: "W5100 \<Rightarrow> mem \<Rightarrow> u16 \<Rightarrow> W5100" where
  "sent dev data len =
    dev\<lparr>ops := ops dev @ [WriteSnDHAR (octets_at data 6),
                           Send_data_processing (octets_at data (unat len)),
                           ExecCmdSn Sock_SEND_MAC]\<rparr>"

text \<open>
  A message as the setters build it when the payload fits: version 0, a recognized type,
  zero reserved octets, and a payload length field that is the length of the payload and
  at most \<open>MAX_PAYLOAD\<close>.
\<close>

definition well_formed :: "u16 \<Rightarrow> AppMessage \<Rightarrow> bool" where
  "well_formed MAX_PAYLOAD m \<longleftrightarrow>
     version m = 0 \<and> recognized (message_type m) \<and> payload_length m \<le> MAX_PAYLOAD
     \<and> reserved m = 0 \<and> unat (payload_length m) = length (payload m)"

text \<open>
  The round trip of a message \<open>m\<close> through a parser that was just cleared: feeding the
  octets of \<open>serialize m\<close> one by one completes exactly the message \<open>m\<close>, and after
  every octet fed the error count is 0.
\<close>

definition round_trips :: "u16 \<Rightarrow> ('s::len word) AppMessageParser \<Rightarrow> AppMessage \<Rightarrow> bool" where
  "round_trips MAX_PAYLOAD p m \<longleftrightarrow>
     fst (parse_octets MAX_PAYLOAD (clear p) (serialize m)) = [m]
     \<and> (\<forall>n \<le> length (serialize m).
          m_error_count (snd (parse_octets MAX_PAYLOAD (clear p) (take n (serialize m)))) = 0)"

text \<open>
  \<open>unsynchronized MAX_PAYLOAD g s\<close>: in the stream \<open>g @ s\<close>, no octet of \<open>g\<close> begins
  twelve octets that pass the validation of the header.
\<close>

fun unsynchronized :: "u16 \<Rightarrow> u8 list \<Rightarrow> u8 list \<Rightarrow> bool" where
  "unsynchronized MAX_PAYLOAD [] s = True"
| "unsynchronized MAX_PAYLOAD (x # g) s =
    (header_rejected MAX_PAYLOAD (take HEADER_LEN (x # g @ s)) \<and> unsynchronized MAX_PAYLOAD g s)"

text \<open>Example input: a parser that has been used.\<close>

definition parser_ex :: "16 word AppMessageParser" where
  "parser_ex =
    \<lparr>m_octets_left_in_payload = 3, m_error_count = 7, m_header_buffer = [1, 2],
     m_current_message = setVendor (Eui48 1 1 1 1 1 1) [9]\<rparr>"

text \<open>
  Example inputs for the AVDECC setters: an Ethernet frame, its source address as the
  address of the message and the octets behind its 14-octet header as the PDU; and a
  parser in the header phase with eleven octets collected.
\<close>

definition frame_ex :: "u8 list" where
  "frame_ex = [0x91, 0xE0, 0xF0, 0x01, 0x00, 0x00, 0x70, 0xB3, 0xD5, 0xED, 0xCF, 0xF0, 0x22, 0xF0,
              0xFA, 0x00, 0x50, 0x38]"

definition adr_ex :: "u8 list \<Rightarrow> Eui48" where
  "adr_ex f = Eui48 (f ! 6) (f ! 7) (f ! 8) (f ! 9) (f ! 10) (f ! 11)"

definition pdu_ex :: "u8 list \<Rightarrow> u8 list" where
  "pdu_ex f = drop 14 f"

definition parser_mid :: "16 word AppMessageParser" where
  "parser_mid = (clear parser_ex)\<lparr>m_header_buffer := [0xFF, 0, 0, 0, 0, 0, 0, 0, 0, 0, 0]\<rparr>"

section \<open>Receive path\<close>

text \<open>With the RECV flag clear, the whole effect of \<open>ReceiveRawNet\<close> in one equation.\<close>

lemma ReceiveRawNet_not_pending:
  assumes "pending_ir dev AND SnIR_RECV k = 0"
  shows "ReceiveRawNet k dev data max_len = (0, data, dev\<lparr>ir_reads := Suc (ir_reads dev)\<rparr>)"
  using assms by (simp add: ReceiveRawNet_def readSnIR_def pending_ir_def)

text \<open>
  C7. When the RECV flag is not set in the interrupt register, \<open>ReceiveRawNet\<close> returns
  0 and writes nothing: the caller's memory is returned as it was, and the controller
  differs only in the count of interrupt-register reads, so the RX read pointer and the
  history of writes and commands are unchanged.
\<close>

theorem ReceiveRawNet_idle:
  assumes "pending_ir dev AND SnIR_RECV k = 0"
  shows "ReceiveRawNet k dev data max_len = (0, data, dev\<lparr>ir_reads := Suc (ir_reads dev)\<rparr>)"
  using assms by (rule ReceiveRawNet_not_pending)

theorem ReceiveRawNet_idle_witness:
  "pending_ir (dev_ex [0, 5, 0xAA, 0xBB, 0xCC] 0x10) AND SnIR_RECV k0 = 0
   \<and> ReceiveRawNet k0 (dev_ex [0, 5, 0xAA, 0xBB, 0xCC] 0x10) (\<lambda>_. 0xEE) 1522
       = (0, (\<lambda>_. 0xEE), (dev_ex [0, 5, 0xAA, 0xBB, 0xCC] 0x10)\<lparr>ir_reads := 1\<rparr>)"
  using ReceiveRawNet_idle [where dev = "dev_ex [0, 5, 0xAA, 0xBB, 0xCC] 0x10" and k = k0 and data = "\<lambda>_. 0xEE"
      and max_len = 1522]
  by (simp add: pending_ir_def dev_ex_def k0_def)

text \<open>With the RECV flag set, the whole effect of \<open>ReceiveRawNet\<close> in one equation.\<close>

lemma ReceiveRawNet_pending:
  assumes "pending_ir dev AND SnIR_RECV k \<noteq> 0"
  shows "ReceiveRawNet k dev data max_len =
    (if rx_prefix dev - 2 \<le> max_len then rx_prefix dev - 2 else 0,
     if rx_prefix dev - 2 \<le> max_len
     then read_data dev (Sn_RX_RD dev + 2) data (unat (rx_prefix dev - 2)) else data,
     rx_released dev)"
  using assms
  by (simp add: ReceiveRawNet_def readSnIR_def pending_ir_def Let_def readSnRX_RD_def
      read_data_def rx_prefix_def rx_released_def execCmdSn_def writeSnRX_RD_def issue_def
      cong: if_cong)

lemma short_prefix: "(x::u16) < 2 \<Longrightarrow> x = 0 \<or> x = 1"
proof -
  assume "x < 2"
  then have "unat x < 2" by (simp add: word_less_nat_alt)
  then have "unat x = 0 \<or> unat x = 1" by arith
  then show ?thesis
  proof
    assume "unat x = 0"
    then show ?thesis by (simp add: unat_eq_0)
  next
    assume "unat x = 1"
    then have "word_of_nat (unat x) = (word_of_nat 1 :: u16)" by simp
    then show ?thesis by simp
  qed
qed

lemma short_prefix_wraps:
  assumes "(x::u16) < 2" and "max_len < 65534"
  shows "max_len < x - 2"
proof -
  from assms(1) have "x = 0 \<or> x = 1" by (rule short_prefix)
  then show ?thesis
  proof
    assume "x = 0"
    then have "x - 2 = 65534" by simp
    with assms(2) show ?thesis by simp
  next
    assume "x = 1"
    then have "x - 2 = 65535" by simp
    moreover have "(65534::u16) < 65535" by simp
    with assms(2) have "max_len < 65535" by (rule less_trans)
    ultimately show ?thesis by simp
  qed
qed

text \<open>
  C3. With the RECV flag set and the decoded length (prefix minus 2, on 16 bits) at most
  \<open>max_len\<close>, \<open>ReceiveRawNet\<close> returns the decoded length; the caller's memory holds,
  in its first \<open>data_len\<close> octets, the octets that follow the prefix in the RX memory, and
  is unchanged beyond them; the RX read pointer is written with its old value plus the
  prefix, and then the RECV command is executed.
\<close>

theorem ReceiveRawNet_frame:
  assumes "pending_ir dev AND SnIR_RECV k \<noteq> 0" and "rx_prefix dev - 2 \<le> max_len"
  shows "ReceiveRawNet k dev data max_len =
    (rx_prefix dev - 2,
     (\<lambda>i. if i < unat (rx_prefix dev - 2) then rx_at dev (Sn_RX_RD dev + 2 + of_nat i) else data i),
     dev\<lparr>ops := ops dev @ [WriteSnRX_RD (Sn_RX_RD dev + rx_prefix dev), ExecCmdSn Sock_RECV],
         Sn_RX_RD := Sn_RX_RD dev + rx_prefix dev,
         ir_reads := Suc (ir_reads dev)\<rparr>)"
  using assms by (simp add: ReceiveRawNet_pending rx_released_def read_data_def)

theorem ReceiveRawNet_frame_witness:
  "pending_ir (dev_ex [0, 5, 0xAA, 0xBB, 0xCC] 4) AND SnIR_RECV k0 \<noteq> 0
   \<and> rx_prefix (dev_ex [0, 5, 0xAA, 0xBB, 0xCC] 4) - 2 \<le> 1522
   \<and> fst (ReceiveRawNet k0 (dev_ex [0, 5, 0xAA, 0xBB, 0xCC] 4) (\<lambda>_. 0xEE) 1522) = 3
   \<and> map (fst (snd (ReceiveRawNet k0 (dev_ex [0, 5, 0xAA, 0xBB, 0xCC] 4) (\<lambda>_. 0xEE) 1522))) [0, 1, 2, 3]
       = [0xAA, 0xBB, 0xCC, 0xEE]
   \<and> Sn_RX_RD (snd (snd (ReceiveRawNet k0 (dev_ex [0, 5, 0xAA, 0xBB, 0xCC] 4) (\<lambda>_. 0xEE) 1522))) = 5
   \<and> ops (snd (snd (ReceiveRawNet k0 (dev_ex [0, 5, 0xAA, 0xBB, 0xCC] 4) (\<lambda>_. 0xEE) 1522)))
       = [WriteSnRX_RD 5, ExecCmdSn Sock_RECV]"
  using ReceiveRawNet_frame [where dev = "dev_ex [0, 5, 0xAA, 0xBB, 0xCC] 4" and k = k0 and data = "\<lambda>_. 0xEE"
      and max_len = 1522]
  by (simp add: pending_ir_def rx_prefix_def dev_ex_def k0_def)

text \<open>
  C4, amended. With the RECV flag set and the decoded length (prefix minus 2 modulo
  \<open>2^16\<close>) above \<open>max_len\<close>, which includes every prefix below 2 when \<open>max_len\<close> is
  below 65534, \<open>ReceiveRawNet\<close> returns 0, leaves the caller's memory as it was, writes
  the RX read pointer with its old value plus the prefix and then executes RECV. The
  witness is the 2000-octet frame offered to a buffer of 1522 octets: the pointer moves
  by 2002.
\<close>

theorem ReceiveRawNet_skip:
  assumes "pending_ir dev AND SnIR_RECV k \<noteq> 0"
    and "max_len < rx_prefix dev - 2 \<or> (rx_prefix dev < 2 \<and> max_len < 65534)"
  shows "ReceiveRawNet k dev data max_len = (0, data, rx_released dev)
    \<and> Sn_RX_RD (rx_released dev) = Sn_RX_RD dev + rx_prefix dev
    \<and> ops (rx_released dev) = ops dev @ [WriteSnRX_RD (Sn_RX_RD dev + rx_prefix dev), ExecCmdSn Sock_RECV]"
proof -
  from assms(2) have "max_len < rx_prefix dev - 2"
    using short_prefix_wraps by blast
  then have "\<not> rx_prefix dev - 2 \<le> max_len" by simp
  with assms(1) show ?thesis
    by (simp add: ReceiveRawNet_pending rx_released_def)
qed

theorem ReceiveRawNet_skip_witness:
  "pending_ir (dev_ex [0x07, 0xD2] 4) AND SnIR_RECV k0 \<noteq> 0
   \<and> rx_prefix (dev_ex [0x07, 0xD2] 4) = 2002
   \<and> (1522 < rx_prefix (dev_ex [0x07, 0xD2] 4) - 2)
   \<and> ReceiveRawNet k0 (dev_ex [0x07, 0xD2] 4) (\<lambda>_. 0xEE) 1522
       = (0, (\<lambda>_. 0xEE), rx_released (dev_ex [0x07, 0xD2] 4))
   \<and> Sn_RX_RD (rx_released (dev_ex [0x07, 0xD2] 4)) = 2002
   \<and> ops (rx_released (dev_ex [0x07, 0xD2] 4)) = [WriteSnRX_RD 2002, ExecCmdSn Sock_RECV]
   \<and> rx_prefix (dev_ex [0, 1] 4) < 2
   \<and> ReceiveRawNet k0 (dev_ex [0, 1] 4) (\<lambda>_. 0xEE) 1522
       = (0, (\<lambda>_. 0xEE), rx_released (dev_ex [0, 1] 4))
   \<and> Sn_RX_RD (rx_released (dev_ex [0, 1] 4)) = 1"
  using ReceiveRawNet_skip [where dev = "dev_ex [0x07, 0xD2] 4" and k = k0 and data = "\<lambda>_. 0xEE"
      and max_len = 1522]
    ReceiveRawNet_skip [where dev = "dev_ex [0, 1] 4" and k = k0 and data = "\<lambda>_. 0xEE"
      and max_len = 1522]
  by (simp add: pending_ir_def rx_prefix_def dev_ex_def k0_def)

text \<open>
  The claim as stated fails for a prefix below 2 when the caller's capacity is 65534 or
  65535: with prefix 1 and capacity 65535 the decoded length wraps to 65535, so 65535
  octets are copied and 65535 is returned.
\<close>

theorem ReceiveRawNet_short_prefix_counterexample:
  "pending_ir (dev_ex [0, 1, 0xAB] 4) AND SnIR_RECV k0 \<noteq> 0
   \<and> rx_prefix (dev_ex [0, 1, 0xAB] 4) < 2
   \<and> fst (ReceiveRawNet k0 (dev_ex [0, 1, 0xAB] 4) (\<lambda>_. 0xEE) 65535) = 65535
   \<and> fst (snd (ReceiveRawNet k0 (dev_ex [0, 1, 0xAB] 4) (\<lambda>_. 0xEE) 65535)) 0 = 0xAB"
proof -
  have p: "pending_ir (dev_ex [0, 1, 0xAB] 4) AND SnIR_RECV k0 \<noteq> 0"
    by (simp add: pending_ir_def dev_ex_def k0_def)
  have r: "rx_prefix (dev_ex [0, 1, 0xAB] 4) = 1"
    by (simp add: rx_prefix_def dev_ex_def)
  have d: "rx_prefix (dev_ex [0, 1, 0xAB] 4) - 2 = 65535"
    by (simp add: r)
  have m: "rx_at (dev_ex [0, 1, 0xAB] 4) (Sn_RX_RD (dev_ex [0, 1, 0xAB] 4) + 2) = 0xAB"
    by (simp add: dev_ex_def)
  show ?thesis
    using p m by (simp add: ReceiveRawNet_pending [OF p] d read_data_def) (simp add: r)
qed

text \<open>
  C9. The return value 0 of \<open>ReceiveRawNet\<close> stands for three outcomes: no frame
  pending (nothing is written), a pending frame skipped because its decoded length
  exceeds \<open>max_len\<close>, and a pending frame of decoded length 0 (prefix 2); in the last two
  the RX read pointer is advanced and RECV is executed. A nonzero return value is the
  decoded length, and that many octets were copied to the caller's memory.
\<close>

theorem ReceiveRawNet_zero_conflated:
  "(pending_ir dev AND SnIR_RECV k = 0 \<longrightarrow>
      fst (ReceiveRawNet k dev data max_len) = 0
      \<and> snd (snd (ReceiveRawNet k dev data max_len)) = dev\<lparr>ir_reads := Suc (ir_reads dev)\<rparr>)
   \<and> (pending_ir dev AND SnIR_RECV k \<noteq> 0 \<and> max_len < rx_prefix dev - 2 \<longrightarrow>
      fst (ReceiveRawNet k dev data max_len) = 0
      \<and> snd (snd (ReceiveRawNet k dev data max_len)) = rx_released dev)
   \<and> (pending_ir dev AND SnIR_RECV k \<noteq> 0 \<and> rx_prefix dev = 2 \<longrightarrow>
      fst (ReceiveRawNet k dev data max_len) = 0
      \<and> snd (snd (ReceiveRawNet k dev data max_len)) = rx_released dev
      \<and> Sn_RX_RD (rx_released dev) = Sn_RX_RD dev + 2
      \<and> ops (rx_released dev) = ops dev @ [WriteSnRX_RD (Sn_RX_RD dev + 2), ExecCmdSn Sock_RECV])
   \<and> (fst (ReceiveRawNet k dev data max_len) \<noteq> 0 \<longrightarrow>
      pending_ir dev AND SnIR_RECV k \<noteq> 0
      \<and> fst (ReceiveRawNet k dev data max_len) = rx_prefix dev - 2
      \<and> fst (snd (ReceiveRawNet k dev data max_len))
          = read_data dev (Sn_RX_RD dev + 2) data (unat (fst (ReceiveRawNet k dev data max_len))))"
proof (cases "pending_ir dev AND SnIR_RECV k = 0")
  case True
  then show ?thesis by (simp add: ReceiveRawNet_not_pending)
next
  case False
  then show ?thesis
    by (auto simp add: ReceiveRawNet_pending rx_released_def)
qed

theorem ReceiveRawNet_zero_conflated_witness:
  "pending_ir (dev_ex [0, 5, 0xAA, 0xBB, 0xCC] 0x10) AND SnIR_RECV k0 = 0
   \<and> fst (ReceiveRawNet k0 (dev_ex [0, 5, 0xAA, 0xBB, 0xCC] 0x10) (\<lambda>_. 0xEE) 1522) = 0
   \<and> pending_ir (dev_ex [0x07, 0xD2] 4) AND SnIR_RECV k0 \<noteq> 0
   \<and> 1522 < rx_prefix (dev_ex [0x07, 0xD2] 4) - 2
   \<and> fst (ReceiveRawNet k0 (dev_ex [0x07, 0xD2] 4) (\<lambda>_. 0xEE) 1522) = 0
   \<and> pending_ir (dev_ex [0, 2] 4) AND SnIR_RECV k0 \<noteq> 0
   \<and> rx_prefix (dev_ex [0, 2] 4) = 2
   \<and> fst (ReceiveRawNet k0 (dev_ex [0, 2] 4) (\<lambda>_. 0xEE) 1522) = 0
   \<and> snd (snd (ReceiveRawNet k0 (dev_ex [0, 2] 4) (\<lambda>_. 0xEE) 1522)) = rx_released (dev_ex [0, 2] 4)
   \<and> fst (ReceiveRawNet k0 (dev_ex [0, 5, 0xAA, 0xBB, 0xCC] 4) (\<lambda>_. 0xEE) 1522) \<noteq> 0
   \<and> fst (ReceiveRawNet k0 (dev_ex [0, 5, 0xAA, 0xBB, 0xCC] 4) (\<lambda>_. 0xEE) 1522)
       = rx_prefix (dev_ex [0, 5, 0xAA, 0xBB, 0xCC] 4) - 2"
proof -
  have idle: "pending_ir (dev_ex [0, 5, 0xAA, 0xBB, 0xCC] 0x10) AND SnIR_RECV k0 = 0"
    by (simp add: pending_ir_def dev_ex_def k0_def)
  have over: "pending_ir (dev_ex [0x07, 0xD2] 4) AND SnIR_RECV k0 \<noteq> 0"
    by (simp add: pending_ir_def dev_ex_def k0_def)
  have over_len: "1522 < rx_prefix (dev_ex [0x07, 0xD2] 4) - 2"
    by (simp add: rx_prefix_def dev_ex_def)
  have empty: "pending_ir (dev_ex [0, 2] 4) AND SnIR_RECV k0 \<noteq> 0"
    by (simp add: pending_ir_def dev_ex_def k0_def)
  have empty_len: "rx_prefix (dev_ex [0, 2] 4) = 2"
    by (simp add: rx_prefix_def dev_ex_def)
  have frame: "pending_ir (dev_ex [0, 5, 0xAA, 0xBB, 0xCC] 4) AND SnIR_RECV k0 \<noteq> 0"
    by (simp add: pending_ir_def dev_ex_def k0_def)
  have frame_len: "rx_prefix (dev_ex [0, 5, 0xAA, 0xBB, 0xCC] 4) = 5"
    by (simp add: rx_prefix_def dev_ex_def)
  have nz: "fst (ReceiveRawNet k0 (dev_ex [0, 5, 0xAA, 0xBB, 0xCC] 4) (\<lambda>_. 0xEE) 1522) \<noteq> 0"
    by (simp add: ReceiveRawNet_pending [OF frame] frame_len)
  note a = ReceiveRawNet_zero_conflated [where dev = "dev_ex [0, 5, 0xAA, 0xBB, 0xCC] 0x10"
        and k = k0 and data = "\<lambda>_. 0xEE" and max_len = 1522]
  note b = ReceiveRawNet_zero_conflated [where dev = "dev_ex [0x07, 0xD2] 4"
        and k = k0 and data = "\<lambda>_. 0xEE" and max_len = 1522]
  note c = ReceiveRawNet_zero_conflated [where dev = "dev_ex [0, 2] 4"
        and k = k0 and data = "\<lambda>_. 0xEE" and max_len = 1522]
  note d = ReceiveRawNet_zero_conflated [where dev = "dev_ex [0, 5, 0xAA, 0xBB, 0xCC] 4"
        and k = k0 and data = "\<lambda>_. 0xEE" and max_len = 1522]
  from a idle have 1: "fst (ReceiveRawNet k0 (dev_ex [0, 5, 0xAA, 0xBB, 0xCC] 0x10) (\<lambda>_. 0xEE) 1522) = 0"
    by blast
  from b over over_len have 2: "fst (ReceiveRawNet k0 (dev_ex [0x07, 0xD2] 4) (\<lambda>_. 0xEE) 1522) = 0"
    by blast
  from c empty empty_len have 3: "fst (ReceiveRawNet k0 (dev_ex [0, 2] 4) (\<lambda>_. 0xEE) 1522) = 0
      \<and> snd (snd (ReceiveRawNet k0 (dev_ex [0, 2] 4) (\<lambda>_. 0xEE) 1522)) = rx_released (dev_ex [0, 2] 4)"
    by blast
  from d nz have 4: "fst (ReceiveRawNet k0 (dev_ex [0, 5, 0xAA, 0xBB, 0xCC] 4) (\<lambda>_. 0xEE) 1522)
       = rx_prefix (dev_ex [0, 5, 0xAA, 0xBB, 0xCC] 4) - 2"
    by blast
  from idle over over_len empty empty_len nz 1 2 3 4 show ?thesis by blast
qed

section \<open>Transmit path\<close>

lemma SendRawNet_wait_send_ok:
  assumes "pending_ir dev AND SnIR_SEND_OK k = SnIR_SEND_OK k"
  shows "SendRawNet_wait k dev =
    Some (None, dev\<lparr>ops := ops dev @ [WriteSnIR (SnIR_SEND_OK k)], ir_reads := Suc (ir_reads dev)\<rparr>)"
  using assms
  by (subst SendRawNet_wait.simps) (simp add: readSnIR_def pending_ir_def writeSnIR_def issue_def)

lemma SendRawNet_wait_timeout:
  assumes "pending_ir dev AND SnIR_SEND_OK k \<noteq> SnIR_SEND_OK k"
    and "ir_at dev (Suc (ir_reads dev)) AND SnIR_TIMEOUT k \<noteq> 0"
  shows "SendRawNet_wait k dev =
    Some (Some False, dev\<lparr>ops := ops dev @ [WriteSnIR (SnIR_SEND_OK k OR SnIR_TIMEOUT k)],
                           ir_reads := Suc (Suc (ir_reads dev))\<rparr>)"
  using assms
  by (subst SendRawNet_wait.simps) (simp add: readSnIR_def pending_ir_def writeSnIR_def issue_def)

lemma SendRawNet_wait_never_true:
  assumes "SendRawNet_wait k dev = Some y"
  shows "fst y \<noteq> Some True"
proof (rule SendRawNet_wait.raw_induct [where P = "\<lambda>k dev y. fst y \<noteq> Some True", OF _ assms])
  fix wait k dev0 y
  assume "\<And>k dev y. wait k dev = Some y \<Longrightarrow> fst y \<noteq> Some True"
    and "(case readSnIR dev0 of
      (ir1, dev1) \<Rightarrow>
        if ir1 AND SnIR_SEND_OK k \<noteq> SnIR_SEND_OK k
        then case readSnIR dev1 of
             (ir2, dev2) \<Rightarrow>
               if ir2 AND SnIR_TIMEOUT k \<noteq> 0
               then Some (Some False, writeSnIR (SnIR_SEND_OK k OR SnIR_TIMEOUT k) dev2)
               else wait k dev2
        else Some (None, writeSnIR (SnIR_SEND_OK k) dev1)) = Some y"
  then show "fst y \<noteq> Some True"
    by (auto simp: readSnIR_def split: if_splits)
qed

lemma SendRawNet_sent: "SendRawNet k dev data len = SendRawNet_wait k (sent dev data len)"
  by (simp add: SendRawNet_def sent_def execCmdSn_def send_data_processing_def writeSnDHAR_def
      issue_def)

text \<open>
  C2. The claim has \<open>SendRawNet\<close> return true when SEND_OK is observed. The source
  does not: when the first poll of the interrupt register shows SEND_OK, the call ends
  after writing SEND_OK back to the register, and no value is returned. (On TIMEOUT the
  call does write both flags and return false, and it never returns true:
  \<open>SendRawNet_wait_timeout\<close>, \<open>SendRawNet_wait_never_true\<close>.)
\<close>

theorem SendRawNet_send_ok_returns_no_value:
  "SendRawNet k0 (dev_ex [] 0x10) (\<lambda>_. 0xFF) 60 =
    Some (None,
      (dev_ex [] 0x10)\<lparr>ops := [WriteSnDHAR (octets_at (\<lambda>_. 0xFF) 6),
                                Send_data_processing (octets_at (\<lambda>_. 0xFF) 60),
                                ExecCmdSn Sock_SEND_MAC, WriteSnIR 0x10],
                        ir_reads := 1\<rparr>)"
proof -
  have "pending_ir (sent (dev_ex [] 0x10) (\<lambda>_. 0xFF) 60) AND SnIR_SEND_OK k0 = SnIR_SEND_OK k0"
    by (simp add: pending_ir_def sent_def dev_ex_def k0_def)
  then show ?thesis
    by (simp add: SendRawNet_sent SendRawNet_wait_send_ok) (simp add: sent_def dev_ex_def k0_def)
qed

section \<open>Initialization and multicast\<close>

text \<open>
  C5. For every MAC address and Ethertype, the constructor runs \<open>initialize\<close> with
  them; \<open>initialize\<close> resets the controller, then programs the given MAC address, then
  opens the socket in MAC-RAW mode with the given Ethertype. \<open>0x22F0\<close> is what
  \<open>initialize\<close> takes when no Ethertype is given, and \<open>WizNetIO::Initialize\<close>, which
  has no Ethertype parameter, is that call. The object keeps the MAC address and the
  Ethertype.
\<close>

theorem initialize_programs_controller:
  "snd (RawSocketWizNet_new k dflt mac e mc dev) = initialize k mac e dev
   \<and> ops (initialize k mac e dev)
       = ops dev @ [Init, SetMACAddress (octets48 mac), Socket (SnMR_MACRAW k) e 0]
   \<and> initialize_default k mac dev = initialize k mac 0x22f0 dev
   \<and> WizNetIO_Initialize k mac dev = initialize_default k mac dev
   \<and> m_mac_address (fst (RawSocketWizNet_new k dflt mac e mc dev)) = mac
   \<and> m_ethertype (fst (RawSocketWizNet_new k dflt mac e mc dev)) = e"
  by (cases mc)
    (simp_all add: RawSocketWizNet_new_def initialize_def initialize_default_def
      WizNetIO_Initialize_def socket_def setMACAddress_def W5100_init_def issue_def Let_def)

text \<open>
  C8. The claim has \<open>joinMulticast\<close> return true. The source records the address and
  leaves the MAC address and the Ethertype as they were, but returns no value.
\<close>

theorem joinMulticast_returns_no_value:
  "fst (joinMulticast this m) = None
   \<and> m_multicast (snd (joinMulticast this m)) = m
   \<and> m_mac_address (snd (joinMulticast this m)) = m_mac_address this
   \<and> m_ethertype (snd (joinMulticast this m)) = m_ethertype this"
  by (simp add: joinMulticast_def)

section \<open>Parser: clear\<close>

text \<open>
  C10. After \<open>clear\<close> the header buffer has length 0, no payload octets are left to
  read, and the error count is 0, so \<open>getErrorCount\<close> returns 0.
\<close>

theorem clear_resets:
  "length (m_header_buffer (clear p)) = 0
   \<and> m_octets_left_in_payload (clear p) = 0
   \<and> m_error_count (clear p) = 0
   \<and> getErrorCount (clear p) = 0"
  by (simp add: clear_def getErrorCount_def)

section \<open>Parser: round trip\<close>

lemma be16_hi_lo: "be16 (hi8 w) (lo8 w) = w"
  unfolding be16_def hi8_def lo8_def
  by (rule bit_word_eqI) (auto simp: bit_simps)

lemma parse_octets_accumulate:
  assumes "m_octets_left_in_payload p = 0"
    and "length (m_header_buffer p) + length h < HEADER_LEN"
  shows "parse_octets M p (h @ r) =
    parse_octets M (p\<lparr>m_header_buffer := m_header_buffer p @ h\<rparr>) r"
  using assms
proof (induction h arbitrary: p)
  case Nil
  then show ?case by simp
next
  case (Cons x h)
  have step: "parse M p x = (None, p\<lparr>m_header_buffer := m_header_buffer p @ [x]\<rparr>)"
    using Cons.prems by (simp add: parse_def parseHeader_def Let_def)
  have "parse_octets M (p\<lparr>m_header_buffer := m_header_buffer p @ [x]\<rparr>) (h @ r) =
    parse_octets M (p\<lparr>m_header_buffer := m_header_buffer p @ [x]\<rparr>
      \<lparr>m_header_buffer := m_header_buffer (p\<lparr>m_header_buffer := m_header_buffer p @ [x]\<rparr>) @ h\<rparr>) r"
    using Cons.prems by (intro Cons.IH) simp_all
  then show ?case by (simp add: step)
qed

lemma parse_octets_payload:
  assumes "m_octets_left_in_payload p = length pl" and "pl \<noteq> []"
  shows "parse_octets M p (pl @ r) =
    (case parse_octets M
        (p\<lparr>m_current_message :=
              (m_current_message p)\<lparr>payload := payload (m_current_message p) @ pl\<rparr>,
           m_octets_left_in_payload := 0\<rparr>) r
     of (ms, p') \<Rightarrow>
       ((m_current_message p)\<lparr>payload := payload (m_current_message p) @ pl\<rparr> # ms, p'))"
  using assms
proof (induction pl arbitrary: p)
  case Nil
  then show ?case by simp
next
  case (Cons x pl)
  show ?case
  proof (cases pl)
    case Nil
    with Cons.prems show ?thesis
      by (simp add: parse_def parsePayload_def Let_def split: prod.splits)
  next
    case (Cons y ys)
    let ?p1 = "p\<lparr>m_current_message :=
                   (m_current_message p)\<lparr>payload := payload (m_current_message p) @ [x]\<rparr>,
                 m_octets_left_in_payload := length pl\<rparr>"
    have step: "parse M p x = (None, ?p1)"
      using Cons.prems Cons by (simp add: parse_def parsePayload_def Let_def)
    have "parse_octets M ?p1 (pl @ r) =
      (case parse_octets M
        (?p1\<lparr>m_current_message :=
              (m_current_message ?p1)\<lparr>payload := payload (m_current_message ?p1) @ pl\<rparr>,
           m_octets_left_in_payload := 0\<rparr>) r
       of (ms, p') \<Rightarrow>
         ((m_current_message ?p1)\<lparr>payload := payload (m_current_message ?p1) @ pl\<rparr> # ms, p'))"
      using Cons by (intro Cons.IH) simp_all
    then show ?thesis by (simp add: step)
  qed
qed


lemma length_serialize_header: "length (serialize_header m) = HEADER_LEN"
  by (cases "address m") (simp add: serialize_header_def HEADER_LEN_def)

lemma header_message_serialize: "header_message (serialize_header m) = m\<lparr>payload := []\<rparr>"
  by (cases "address m") (simp add: serialize_header_def header_message_def be16_hi_lo)

lemma header_accepted_serialize:
  assumes "well_formed M m"
  shows "\<not> header_rejected M (serialize_header m)"
  using assms
  by (cases "address m")
    (simp add: serialize_header_def header_rejected_def well_formed_def be16_hi_lo not_less)

lemma parse_at_header_end:
  assumes "m_octets_left_in_payload p = 0" and "length (m_header_buffer p) = 11"
  shows "parse M p x = validateHeader M (p\<lparr>m_header_buffer := m_header_buffer p @ [x]\<rparr>)"
  using assms by (simp add: parse_def parseHeader_def Let_def HEADER_LEN_def)

lemma parse_octets_twelve:
  assumes "m_octets_left_in_payload p = 0" and "m_header_buffer p = []" and "length h = HEADER_LEN"
  shows "parse_octets M p (h @ r) =
    (case validateHeader M (p\<lparr>m_header_buffer := h\<rparr>) of (res, p1) \<Rightarrow>
      (case parse_octets M p1 r of (ms, p2) \<Rightarrow>
        ((case res of None \<Rightarrow> [] | Some m \<Rightarrow> [m]) @ ms, p2)))"
proof -
  from assms(3) have h: "h = butlast h @ [last h]" and l: "length (butlast h) = 11"
    by (auto simp: HEADER_LEN_def intro: append_butlast_last_id [symmetric])
  have "parse_octets M p (h @ r) = parse_octets M p (butlast h @ (last h # r))"
    by (subst h) simp
  also have "\<dots> = parse_octets M (p\<lparr>m_header_buffer := butlast h\<rparr>) (last h # r)"
    using assms(1,2) l by (simp add: parse_octets_accumulate HEADER_LEN_def)
  also have "\<dots> = (case validateHeader M (p\<lparr>m_header_buffer := h\<rparr>) of (res, p1) \<Rightarrow>
      (case parse_octets M p1 r of (ms, p2) \<Rightarrow>
        ((case res of None \<Rightarrow> [] | Some m \<Rightarrow> [m]) @ ms, p2)))"
    using assms(1) l h by (simp add: parse_at_header_end)
  finally show ?thesis .
qed


lemma validateHeader_serialize:
  assumes "well_formed M m"
  shows "validateHeader M (p\<lparr>m_header_buffer := serialize_header m\<rparr>) =
    (if payload m = []
     then (Some m, p\<lparr>m_header_buffer := [], m_current_message := m\<rparr>)
     else (None, p\<lparr>m_header_buffer := [], m_current_message := m\<lparr>payload := []\<rparr>,
                   m_octets_left_in_payload := length (payload m)\<rparr>))"
proof -
  from assms have len: "unat (payload_length m) = length (payload m)" and res: "reserved m = 0"
    by (simp_all add: well_formed_def)
  from len have zero: "payload_length m = 0 \<longleftrightarrow> payload m = []"
    by (simp add: unat_eq_0 [symmetric])
  show ?thesis
    using header_accepted_serialize [OF assms] res len
    by (simp add: validateHeader_def Let_def header_message_serialize zero)
qed

lemma left_zero:
  assumes "m_octets_left_in_payload p = 0"
  shows "p\<lparr>m_header_buffer := h, m_current_message := c, m_octets_left_in_payload := 0\<rparr>
    = p\<lparr>m_header_buffer := h, m_current_message := c\<rparr>"
  using assms by (cases p) simp

lemma parse_octets_message:
  assumes "well_formed M m" and "m_octets_left_in_payload p = 0" and "m_header_buffer p = []"
  shows "parse_octets M p (serialize m @ r) =
    (case parse_octets M
        (p\<lparr>m_header_buffer := [], m_current_message := m, m_octets_left_in_payload := 0\<rparr>) r
     of (ms, p') \<Rightarrow> (m # ms, p'))"
proof (cases "payload m = []")
  case True
  then show ?thesis
    using assms
    by (simp add: serialize_def parse_octets_twelve length_serialize_header
        validateHeader_serialize left_zero)
next
  case False
  let ?p2 = "p\<lparr>m_header_buffer := [], m_current_message := m\<lparr>payload := []\<rparr>,
                m_octets_left_in_payload := length (payload m)\<rparr>"
  have "parse_octets M p (serialize m @ r) = parse_octets M ?p2 (payload m @ r)"
    using assms False
    by (simp add: serialize_def parse_octets_twelve length_serialize_header
        validateHeader_serialize)
  also have "\<dots> =
    (case parse_octets M
        (?p2\<lparr>m_current_message :=
              (m_current_message ?p2)\<lparr>payload := payload (m_current_message ?p2) @ payload m\<rparr>,
           m_octets_left_in_payload := 0\<rparr>) r
     of (ms, p') \<Rightarrow>
       ((m_current_message ?p2)\<lparr>payload := payload (m_current_message ?p2) @ payload m\<rparr> # ms, p'))"
    using False by (intro parse_octets_payload) simp_all
  finally show ?thesis by simp
qed

lemma snd_parse_octets_Cons:
  "snd (parse_octets M p (x # xs)) = snd (parse_octets M (snd (parse M p x)) xs)"
  by (simp split: prod.splits)

lemma payload_errors:
  assumes "length pl \<le> m_octets_left_in_payload p"
  shows "m_error_count (snd (parse_octets M p pl)) = m_error_count p"
  using assms
proof (induction pl arbitrary: p)
  case Nil
  then show ?case by simp
next
  case (Cons x pl)
  let ?p1 = "snd (parse M p x)"
  from Cons.prems have pos: "m_octets_left_in_payload p \<noteq> 0" by auto
  then have e: "m_error_count ?p1 = m_error_count p"
    and l: "m_octets_left_in_payload ?p1 = m_octets_left_in_payload p - 1"
    by (simp_all add: parse_def parsePayload_def Let_def)
  from l Cons.prems have "length pl \<le> m_octets_left_in_payload ?p1" by simp
  then have "m_error_count (snd (parse_octets M ?p1 pl)) = m_error_count ?p1"
    by (rule Cons.IH)
  with e show ?case
    by (simp only: snd_parse_octets_Cons)
qed

lemma prefix_errors:
  assumes "well_formed M m" and "m_octets_left_in_payload p = 0" and "m_header_buffer p = []"
    and "n \<le> length (serialize m)"
  shows "m_error_count (snd (parse_octets M p (take n (serialize m)))) = m_error_count p"
proof (cases "n < HEADER_LEN")
  case True
  then have "take n (serialize m) = take n (serialize_header m) @ []"
    by (simp add: serialize_def length_serialize_header)
  moreover have "length (m_header_buffer p) + length (take n (serialize_header m)) < HEADER_LEN"
    using True assms(3) by (simp add: length_serialize_header)
  ultimately show ?thesis
    using assms(2) by (simp only: parse_octets_accumulate) simp
next
  case False
  let ?rest = "take (n - HEADER_LEN) (payload m)"
  from False have split: "take n (serialize m) = serialize_header m @ ?rest"
    by (simp add: serialize_def length_serialize_header)
  obtain res p1 where v: "validateHeader M (p\<lparr>m_header_buffer := serialize_header m\<rparr>) = (res, p1)"
    by (cases "validateHeader M (p\<lparr>m_header_buffer := serialize_header m\<rparr>)")
  from v assms(1) have e1: "m_error_count p1 = m_error_count p"
    and l1: "length (payload m) \<le> m_octets_left_in_payload p1"
    by (auto simp add: validateHeader_serialize split: if_splits)
  have "parse_octets M p (serialize_header m @ ?rest) =
    (case validateHeader M (p\<lparr>m_header_buffer := serialize_header m\<rparr>) of (res, p1) \<Rightarrow>
      (case parse_octets M p1 ?rest of (ms, p2) \<Rightarrow>
        ((case res of None \<Rightarrow> [] | Some m \<Rightarrow> [m]) @ ms, p2)))"
    using assms(2,3) by (intro parse_octets_twelve) (simp_all add: length_serialize_header)
  then have "snd (parse_octets M p (take n (serialize m))) = snd (parse_octets M p1 ?rest)"
    by (simp add: split v split: prod.splits)
  moreover have "length ?rest \<le> m_octets_left_in_payload p1"
    using l1 by simp
  ultimately show ?thesis
    by (simp add: payload_errors e1)
qed


lemma well_formed_mk:
  assumes "recognized t" and "length pl \<le> unat M"
  shows "well_formed M (mk_AppMessage t a pl)"
  using assms
  by (simp add: well_formed_def mk_AppMessage_def word_le_nat_alt le_unat_uoi)

lemma well_formed_round_trips:
  assumes "well_formed M m"
  shows "round_trips M p m"
proof -
  have c: "m_octets_left_in_payload (clear p) = 0" "m_header_buffer (clear p) = []"
    "m_error_count (clear p) = 0"
    by (simp_all add: clear_def)
  have "parse_octets M (clear p) (serialize m @ []) =
    (case parse_octets M
        ((clear p)\<lparr>m_header_buffer := [], m_current_message := m, m_octets_left_in_payload := 0\<rparr>) []
     of (ms, p') \<Rightarrow> (m # ms, p'))"
    using assms c(1,2) by (rule parse_octets_message)
  then have "fst (parse_octets M (clear p) (serialize m)) = [m]"
    by simp
  moreover have "\<forall>n \<le> length (serialize m).
      m_error_count (snd (parse_octets M (clear p) (take n (serialize m)))) = 0"
    using assms c by (simp add: prefix_errors)
  ultimately show ?thesis
    by (simp add: round_trips_def)
qed

lemma recognized_types:
  "recognized NOP" "recognized ENTITY_ID_REQUEST" "recognized ENTITY_ID_RESPONSE"
  "recognized LINK_UP" "recognized LINK_DOWN" "recognized AVDECC_FROM_APS"
  "recognized AVDECC_FROM_APC" "recognized VENDOR"
  by (simp_all add: recognized_def)

lemma length_octets64: "length (octets64 e) = 8"
  by (cases e) simp

text \<open>
  C1. For every message built by one of the setters whose payload fits (the eight octets
  of an entity id, the PDU of a frame or the vendor payload are at most \<open>MAX_PAYLOAD\<close>
  octets), feeding its serialization octet by octet to a parser that was just cleared
  completes exactly that message, and the error count is 0 after every octet.
\<close>

theorem AppMessage_round_trip:
  "round_trips M p setNOP
   \<and> (8 \<le> M \<longrightarrow> round_trips M p (setEntityIdRequest a e))
   \<and> (8 \<le> M \<longrightarrow> round_trips M p (setEntityIdResponse a e))
   \<and> round_trips M p (setLinkUp a)
   \<and> round_trips M p (setLinkDown a)
   \<and> (length (pdu f) \<le> unat M \<longrightarrow> round_trips M p (setAvdeccFromAps adr pdu f))
   \<and> (length (pdu f) \<le> unat M \<longrightarrow> round_trips M p (setAvdeccFromApc adr pdu f))
   \<and> (length pl \<le> unat M \<longrightarrow> round_trips M p (setVendor v pl))"
proof -
  have eight: "8 \<le> M \<Longrightarrow> length (octets64 e) \<le> unat M"
    by (simp add: length_octets64 word_le_nat_alt)
  show ?thesis
    unfolding setNOP_def setEntityIdRequest_def setEntityIdResponse_def setLinkUp_def
      setLinkDown_def setAvdeccFromAps_def setAvdeccFromApc_def setVendor_def
    by (intro conjI impI well_formed_round_trips well_formed_mk recognized_types eight) simp_all
qed


theorem AppMessage_round_trip_witness:
  "round_trips 1500 parser_ex setNOP
   \<and> (8::u16) \<le> 1500
   \<and> round_trips 1500 parser_ex
        (setEntityIdRequest (Eui48 1 2 3 4 5 6) (Eui64 0x11 0x22 0x33 0x44 0x55 0x66 0x77 0x88))
   \<and> round_trips 1500 parser_ex
        (setEntityIdResponse (Eui48 1 2 3 4 5 6) (Eui64 0x11 0x22 0x33 0x44 0x55 0x66 0x77 0x88))
   \<and> round_trips 1500 parser_ex (setLinkUp (Eui48 1 2 3 4 5 6))
   \<and> round_trips 1500 parser_ex (setLinkDown (Eui48 1 2 3 4 5 6))
   \<and> length (pdu_ex frame_ex) \<le> unat (1500::u16)
   \<and> round_trips 1500 parser_ex (setAvdeccFromAps adr_ex pdu_ex frame_ex)
   \<and> round_trips 1500 parser_ex (setAvdeccFromApc adr_ex pdu_ex frame_ex)
   \<and> length [0xDE, 0xAD :: u8] \<le> unat (1500::u16)
   \<and> round_trips 1500 parser_ex (setVendor (Eui48 0 0x1B 0x92 0 0 1) [0xDE, 0xAD])
   \<and> serialize (setEntityIdRequest (Eui48 1 2 3 4 5 6) (Eui64 0x11 0x22 0x33 0x44 0x55 0x66 0x77 0x88))
       = [0, 1, 0, 8, 1, 2, 3, 4, 5, 6, 0, 0, 0x11, 0x22, 0x33, 0x44, 0x55, 0x66, 0x77, 0x88]
   \<and> fst (parse_octets 1500 (clear parser_ex)
         [0, 1, 0, 8, 1, 2, 3, 4, 5, 6, 0, 0, 0x11, 0x22, 0x33, 0x44, 0x55, 0x66, 0x77, 0x88])
       = [setEntityIdRequest (Eui48 1 2 3 4 5 6) (Eui64 0x11 0x22 0x33 0x44 0x55 0x66 0x77 0x88)]"
proof -
  note t = AppMessage_round_trip [where M = 1500 and p = parser_ex and a = "Eui48 1 2 3 4 5 6"
      and e = "Eui64 0x11 0x22 0x33 0x44 0x55 0x66 0x77 0x88" and adr = adr_ex and pdu = pdu_ex
      and f = frame_ex and v = "Eui48 0 0x1B 0x92 0 0 1" and pl = "[0xDE, 0xAD]"]
  have h1: "(8::u16) \<le> 1500" by simp
  have h2: "length (pdu_ex frame_ex) \<le> unat (1500::u16)"
    by (simp add: pdu_ex_def frame_ex_def)
  have h3: "length [0xDE, 0xAD :: u8] \<le> unat (1500::u16)" by simp
  have s: "serialize (setEntityIdRequest (Eui48 1 2 3 4 5 6)
        (Eui64 0x11 0x22 0x33 0x44 0x55 0x66 0x77 0x88))
       = [0, 1, 0, 8, 1, 2, 3, 4, 5, 6, 0, 0, 0x11, 0x22, 0x33, 0x44, 0x55, 0x66, 0x77, 0x88]"
    by (simp add: serialize_def serialize_header_def setEntityIdRequest_def mk_AppMessage_def
        hi8_def lo8_def ENTITY_ID_REQUEST_def)
  from t h1 have r: "round_trips 1500 parser_ex
        (setEntityIdRequest (Eui48 1 2 3 4 5 6) (Eui64 0x11 0x22 0x33 0x44 0x55 0x66 0x77 0x88))"
    by blast
  then have "fst (parse_octets 1500 (clear parser_ex)
      (serialize (setEntityIdRequest (Eui48 1 2 3 4 5 6)
        (Eui64 0x11 0x22 0x33 0x44 0x55 0x66 0x77 0x88))))
       = [setEntityIdRequest (Eui48 1 2 3 4 5 6) (Eui64 0x11 0x22 0x33 0x44 0x55 0x66 0x77 0x88)]"
    unfolding round_trips_def by (rule conjunct1)
  then have q: "fst (parse_octets 1500 (clear parser_ex)
         [0, 1, 0, 8, 1, 2, 3, 4, 5, 6, 0, 0, 0x11, 0x22, 0x33, 0x44, 0x55, 0x66, 0x77, 0x88])
       = [setEntityIdRequest (Eui48 1 2 3 4 5 6) (Eui64 0x11 0x22 0x33 0x44 0x55 0x66 0x77 0x88)]"
    by (simp only: s)
  from t h1 h2 h3 s q show ?thesis by blast
qed

section \<open>Parser: header errors and resynchronization\<close>

lemma validateHeader_rejected:
  assumes "header_rejected M (m_header_buffer p)"
  shows "validateHeader M p =
    (None, p\<lparr>m_error_count := m_error_count p + 1, m_header_buffer := tl (m_header_buffer p)\<rparr>)"
  using assms by (simp add: validateHeader_def)

lemma resync_step:
  assumes "m_octets_left_in_payload p = 0" and "m_header_buffer p = []"
    and "11 \<le> length w" and "header_rejected M (take HEADER_LEN (x # w))"
  shows "parse_octets M p (x # w) = parse_octets M (p\<lparr>m_error_count := m_error_count p + 1\<rparr>) w"
proof -
  let ?h = "take HEADER_LEN (x # w)"
  have lh: "length ?h = HEADER_LEN" and tlh: "tl ?h = take 11 w"
    using assms(3) by (simp_all add: HEADER_LEN_def)
  have xw: "x # w = ?h @ drop 11 w"
    by (simp add: HEADER_LEN_def)
  have "parse_octets M p (?h @ drop 11 w) =
    (case validateHeader M (p\<lparr>m_header_buffer := ?h\<rparr>) of (res, p1) \<Rightarrow>
      (case parse_octets M p1 (drop 11 w) of (ms, p2) \<Rightarrow>
        ((case res of None \<Rightarrow> [] | Some m \<Rightarrow> [m]) @ ms, p2)))"
    using assms(1,2) lh by (rule parse_octets_twelve)
  also have "\<dots> = parse_octets M
      (p\<lparr>m_error_count := m_error_count p + 1, m_header_buffer := take 11 w\<rparr>) (drop 11 w)"
    using assms(4) by (simp add: validateHeader_rejected tlh)
  finally have left: "parse_octets M p (x # w) = parse_octets M
      (p\<lparr>m_error_count := m_error_count p + 1, m_header_buffer := take 11 w\<rparr>) (drop 11 w)"
    by (simp only: xw [symmetric])
  have "parse_octets M (p\<lparr>m_error_count := m_error_count p + 1\<rparr>) (take 11 w @ drop 11 w) =
    parse_octets M
      (p\<lparr>m_error_count := m_error_count p + 1\<rparr>
        \<lparr>m_header_buffer := m_header_buffer (p\<lparr>m_error_count := m_error_count p + 1\<rparr>) @ take 11 w\<rparr>)
      (drop 11 w)"
    using assms(1-3) by (intro parse_octets_accumulate) (simp_all add: HEADER_LEN_def)
  then have right: "parse_octets M (p\<lparr>m_error_count := m_error_count p + 1\<rparr>) w =
    parse_octets M
      (p\<lparr>m_error_count := m_error_count p + 1, m_header_buffer := take 11 w\<rparr>) (drop 11 w)"
    using assms(2) by simp
  from left right show ?thesis by simp
qed

lemma error_count_same: "p\<lparr>m_error_count := m_error_count p\<rparr> = p"
  by (cases p) simp

lemma resync:
  assumes "m_octets_left_in_payload p = 0" and "m_header_buffer p = []"
    and "unsynchronized M g s" and "HEADER_LEN \<le> length s"
  shows "parse_octets M p (g @ s) =
    parse_octets M (p\<lparr>m_error_count := m_error_count p + of_nat (length g)\<rparr>) s"
  using assms
proof (induction g arbitrary: p)
  case Nil
  then show ?case by (simp add: error_count_same)
next
  case (Cons x g)
  let ?p1 = "p\<lparr>m_error_count := m_error_count p + 1\<rparr>"
  from Cons.prems have "parse_octets M p (x # g @ s) = parse_octets M ?p1 (g @ s)"
    by (intro resync_step) (simp_all add: HEADER_LEN_def)
  also have "\<dots> = parse_octets M (?p1\<lparr>m_error_count := m_error_count ?p1 + of_nat (length g)\<rparr>) s"
    using Cons.prems by (intro Cons.IH) simp_all
  finally show ?case by (simp add: ac_simps)
qed


lemma nonzero_unsynchronized:
  assumes "0 \<notin> set g"
  shows "unsynchronized M g s"
  using assms by (induction g) (simp_all add: header_rejected_def HEADER_LEN_def)

text \<open>
  C6, amended. When the twelfth octet completes a header that the validation rejects,
  \<open>parse\<close> returns no message, adds one to the error count, drops exactly the first
  octet of the header buffer (the other eleven move left) and stays in the header phase.
  As a consequence, a well-formed message that follows octets \<open>g\<close> none of which begins
  twelve octets passing the validation (for instance, nonzero octets) is the one message
  completed, after as many header errors as \<open>g\<close> has octets.
\<close>

theorem header_error_resync:
  "(m_octets_left_in_payload p = 0 \<and> length (m_header_buffer p) = 11
      \<and> header_rejected M (m_header_buffer p @ [x]) \<longrightarrow>
      parse M p x =
        (None, p\<lparr>m_error_count := m_error_count p + 1,
                  m_header_buffer := tl (m_header_buffer p @ [x])\<rparr>))
   \<and> (well_formed M m \<and> unsynchronized M g (serialize m) \<longrightarrow>
      parse_octets M (clear p) (g @ serialize m) =
        ([m], (clear p)\<lparr>m_error_count := of_nat (length g), m_current_message := m\<rparr>))"
proof (intro conjI impI)
  assume "m_octets_left_in_payload p = 0 \<and> length (m_header_buffer p) = 11
      \<and> header_rejected M (m_header_buffer p @ [x])"
  then show "parse M p x =
        (None, p\<lparr>m_error_count := m_error_count p + 1,
                  m_header_buffer := tl (m_header_buffer p @ [x])\<rparr>)"
    by (simp add: parse_at_header_end validateHeader_rejected)
next
  assume a: "well_formed M m \<and> unsynchronized M g (serialize m)"
  have c: "m_octets_left_in_payload (clear p) = 0" "m_header_buffer (clear p) = []"
    "m_error_count (clear p) = 0"
    by (simp_all add: clear_def)
  let ?p1 = "(clear p)\<lparr>m_error_count := m_error_count (clear p) + of_nat (length g)\<rparr>"
  have "HEADER_LEN \<le> length (serialize m)"
    by (simp add: serialize_def length_serialize_header)
  with a c have "parse_octets M (clear p) (g @ serialize m) = parse_octets M ?p1 (serialize m @ [])"
    by (simp add: resync)
  also have "\<dots> =
    (case parse_octets M
        (?p1\<lparr>m_header_buffer := [], m_current_message := m, m_octets_left_in_payload := 0\<rparr>) []
     of (ms, p') \<Rightarrow> (m # ms, p'))"
    using a c by (intro parse_octets_message) simp_all
  finally show "parse_octets M (clear p) (g @ serialize m) =
        ([m], (clear p)\<lparr>m_error_count := of_nat (length g), m_current_message := m\<rparr>)"
    by (simp add: clear_def)
qed


lemmas parser_defs = parse_def parseHeader_def parsePayload_def validateHeader_def
  header_rejected_def header_message_def recognized_def be16_def hi8_def lo8_def HEADER_LEN_def
  NOP_def ENTITY_ID_REQUEST_def ENTITY_ID_RESPONSE_def LINK_UP_def LINK_DOWN_def
  AVDECC_FROM_APS_def AVDECC_FROM_APC_def VENDOR_def
  serialize_def serialize_header_def mk_AppMessage_def setNOP_def setLinkUp_def setVendor_def
  clear_def parser_ex_def Let_def

text \<open>
  The claim as stated, that a valid message beginning at any offset is eventually parsed,
  fails when the octets before it pass the validation themselves: twelve octets that read
  as a VENDOR header with payload length 1 take the first octet of the LINK_UP message
  that follows as their payload. The LINK_UP message is never completed, while the NOP
  message after it is found again after nine header errors.
\<close>

theorem resync_false_header_counterexample:
  "well_formed 1500 (setLinkUp (Eui48 0xAA 0xBB 0xCC 0xDD 0xEE 0xFF))
   \<and> parse_octets 1500 (clear parser_ex)
        ([0, 0xFF, 0, 1, 0, 0, 0, 0, 0, 0, 0, 0]
          @ serialize (setLinkUp (Eui48 0xAA 0xBB 0xCC 0xDD 0xEE 0xFF)) @ serialize setNOP)
      = ([setVendor (Eui48 0 0 0 0 0 0) [0], setNOP],
         \<lparr>m_octets_left_in_payload = 0, m_error_count = 9, m_header_buffer = [0, 0],
          m_current_message = setNOP\<rparr>)
   \<and> setLinkUp (Eui48 0xAA 0xBB 0xCC 0xDD 0xEE 0xFF)
        \<notin> set (fst (parse_octets 1500 (clear parser_ex)
            ([0, 0xFF, 0, 1, 0, 0, 0, 0, 0, 0, 0, 0]
              @ serialize (setLinkUp (Eui48 0xAA 0xBB 0xCC 0xDD 0xEE 0xFF)) @ serialize setNOP)))"
proof -
  have w: "well_formed 1500 (setLinkUp (Eui48 0xAA 0xBB 0xCC 0xDD 0xEE 0xFF))"
    by (simp add: well_formed_def setLinkUp_def mk_AppMessage_def recognized_def LINK_UP_def)
  have e: "parse_octets 1500 (clear parser_ex)
        ([0, 0xFF, 0, 1, 0, 0, 0, 0, 0, 0, 0, 0]
          @ serialize (setLinkUp (Eui48 0xAA 0xBB 0xCC 0xDD 0xEE 0xFF)) @ serialize setNOP)
      = ([setVendor (Eui48 0 0 0 0 0 0) [0], setNOP],
         \<lparr>m_octets_left_in_payload = 0, m_error_count = 9, m_header_buffer = [0, 0],
          m_current_message = setNOP\<rparr>)"
    by (simp add: parser_defs)
  have n: "setLinkUp (Eui48 0xAA 0xBB 0xCC 0xDD 0xEE 0xFF)
      \<notin> set [setVendor (Eui48 0 0 0 0 0 0) [0], setNOP]"
    by (simp add: setLinkUp_def setVendor_def setNOP_def mk_AppMessage_def LINK_UP_def VENDOR_def
        NOP_def)
  from w e n show ?thesis by (simp only: fst_conv) simp
qed

theorem header_error_resync_witness:
  "m_octets_left_in_payload parser_mid = 0 \<and> length (m_header_buffer parser_mid) = 11
   \<and> header_rejected 1500 (m_header_buffer parser_mid @ [0])
   \<and> parse 1500 parser_mid 0 =
        (None, parser_mid\<lparr>m_error_count := 1, m_header_buffer := [0, 0, 0, 0, 0, 0, 0, 0, 0, 0, 0]\<rparr>)
   \<and> well_formed 1500 setNOP
   \<and> unsynchronized 1500 [0xFF, 0xFF] (serialize setNOP)
   \<and> parse_octets 1500 (clear parser_ex) ([0xFF, 0xFF] @ serialize setNOP) =
        ([setNOP], (clear parser_ex)\<lparr>m_error_count := 2, m_current_message := setNOP\<rparr>)"
proof -
  have a: "m_octets_left_in_payload parser_mid = 0 \<and> length (m_header_buffer parser_mid) = 11
      \<and> header_rejected 1500 (m_header_buffer parser_mid @ [0])"
    by (simp add: parser_mid_def clear_def header_rejected_def)
  have b: "well_formed 1500 setNOP \<and> unsynchronized 1500 [0xFF, 0xFF] (serialize setNOP)"
    by (simp add: well_formed_def setNOP_def mk_AppMessage_def recognized_def NOP_def
        header_rejected_def HEADER_LEN_def)
  note t1 = header_error_resync [where p = parser_mid and M = 1500 and x = 0, THEN conjunct1]
  note t2 = header_error_resync [where p = parser_ex and M = 1500 and g = "[0xFF, 0xFF]"
      and m = setNOP, THEN conjunct2]
  from t1 a have c: "parse 1500 parser_mid 0 =
        (None, parser_mid\<lparr>m_error_count := m_error_count parser_mid + 1,
                  m_header_buffer := tl (m_header_buffer parser_mid @ [0])\<rparr>)"
    by (rule mp)
  have d: "m_error_count parser_mid + 1 = 1" "tl (m_header_buffer parser_mid @ [0])
      = [0, 0, 0, 0, 0, 0, 0, 0, 0, 0, 0]"
    by (simp_all add: parser_mid_def clear_def)
  from t2 b have e: "parse_octets 1500 (clear parser_ex) ([0xFF, 0xFF] @ serialize setNOP) =
        ([setNOP], (clear parser_ex)\<lparr>m_error_count := of_nat (length [0xFF, 0xFF :: u8]),
           m_current_message := setNOP\<rparr>)"
    by (rule mp)
  from a b c d e show ?thesis by simp
qed

end
